theory Spec2Isabelle
  imports Complex_Main "HOL-Library.Monad_Syntax" "HOL-Library.AList" "HOL-Library.Multiset"
begin

section \<open>JavaScript values\<close>

text \<open>
  A JavaScript string is a sequence of UTF-16 code units. The degree, prime and double
  prime signs of the location formats lie outside ASCII, so strings are lists of code
  units and \<open>ascii\<close> embeds a plain literal.
\<close>

type_synonym jsstring = "nat list"

definition ascii :: "string \<Rightarrow> jsstring" where
  "ascii s = map of_char s"

text \<open>
  The values \<open>JSON.parse\<close> produces. A number is the rational its double denotes;
  \<open>JSON.parse\<close> yields neither NaN nor an \<open>undefined\<close> member. An object is the list
  of its members in insertion order, with pairwise distinct names.
\<close>

datatype json =
    JNull
  | JBool bool
  | JNum rat
  | JStr jsstring
  | JArr "json list"
  | JObj "(jsstring \<times> json) list"

datatype js_error = TypeError | SyntaxError

text \<open>\<open>ToBoolean\<close> on a JSON value; \<open>undefined\<close> (an absent member) is falsy as well.\<close>

fun truthy :: "json \<Rightarrow> bool" where
  "truthy JNull = False"
| "truthy (JBool b) = b"
| "truthy (JNum x) = (x \<noteq> 0)"
| "truthy (JStr s) = (s \<noteq> [])"
| "truthy (JArr xs) = True"
| "truthy (JObj ms) = True"

text \<open>
  Reading \<open>v.name\<close> for a name that no prototype defines (\<open>latitude\<close>,
  \<open>longitude\<close>): \<open>null\<close> throws, an object yields its member or \<open>undefined\<close>
  (\<open>None\<close>), every other value yields \<open>undefined\<close>.
\<close>

fun get_named :: "json \<Rightarrow> jsstring \<Rightarrow> js_error + json option" where
  "get_named JNull k = Inl TypeError"
| "get_named (JObj ms) k = Inr (map_of ms k)"
| "get_named (JBool b) k = Inr None"
| "get_named (JNum x) k = Inr None"
| "get_named (JStr s) k = Inr None"
| "get_named (JArr xs) k = Inr None"

section \<open>Shared utilities: parsing a location\<close>

subsection \<open>Character classes, \<open>trim\<close>, \<open>parseInt\<close>, \<open>parseFloat\<close>\<close>

definition is_digit :: "nat \<Rightarrow> bool" where
  "is_digit c = (48 \<le> c \<and> c \<le> 57)"

text \<open>The class \<open>\s\<close>, which is also what \<open>String.prototype.trim\<close> strips:
  white space and line terminators.\<close>

definition is_space :: "nat \<Rightarrow> bool" where
  "is_space c =
     (c = 9 \<or> c = 10 \<or> c = 11 \<or> c = 12 \<or> c = 13 \<or> c = 32 \<or> c = 160 \<or> c = 5760
      \<or> (8192 \<le> c \<and> c \<le> 8202) \<or> c = 8232 \<or> c = 8233 \<or> c = 8239 \<or> c = 8287
      \<or> c = 12288 \<or> c = 65279)"

definition trim :: "jsstring \<Rightarrow> jsstring" where
  "trim s = rev (dropWhile is_space (rev (dropWhile is_space s)))"

text \<open>\<open>parseInt\<close> on a capture of \<open>\d+\<close>: the decimal value of the digits.\<close>

definition parseInt :: "jsstring \<Rightarrow> rat" where
  "parseInt ds = of_nat (foldl (\<lambda>a c. 10 * a + (c - 48)) 0 ds)"

text \<open>\<open>parseFloat\<close> on a capture of \<open>-?\d+\.\d+\<close>: sign, integer digits, a dot,
  fraction digits.\<close>

definition parseFloat :: "jsstring \<Rightarrow> rat" where
  "parseFloat s =
     (let neg = (s \<noteq> [] \<and> hd s = 45);
          u = (if neg then tl s else s);
          ip = takeWhile is_digit u;
          fp = takeWhile is_digit (drop 1 (dropWhile is_digit u));
          m = parseInt ip + parseInt fp / 10 ^ length fp
      in if neg then - m else m)"

subsection \<open>The three regular expressions\<close>

text \<open>
  A pattern is a function from the input at a start position to its captures, and
  \<open>regex_search\<close> is \<open>String.prototype.match\<close> without the \<open>g\<close> flag: the leftmost
  start position at which the pattern matches. In all three patterns each greedy
  quantifier is followed by an atom disjoint from what it repeats (\<open>\d+\<close> by a sign
  or a separator, \<open>\s*\<close> by a letter, a digit or a comma), so the longest repetition
  is the only one that can succeed and backtracking adds no match.
\<close>

definition digits1 :: "jsstring \<Rightarrow> (jsstring \<times> jsstring) option" where
  "digits1 s =
     (let d = takeWhile is_digit s
      in if d = [] then None else Some (d, dropWhile is_digit s))"

fun lit :: "nat \<Rightarrow> jsstring \<Rightarrow> jsstring option" where
  "lit c [] = None"
| "lit c (x # r) = (if x = c then Some r else None)"

fun one_of :: "nat list \<Rightarrow> jsstring \<Rightarrow> (nat \<times> jsstring) option" where
  "one_of cs [] = None"
| "one_of cs (x # r) = (if x \<in> set cs then Some (x, r) else None)"

definition spaces :: "jsstring \<Rightarrow> jsstring" where
  "spaces s = dropWhile is_space s"

text \<open>\<open>-?\d+\.\d+\<close>, returning the capture and the rest.\<close>

definition signed_decimal :: "jsstring \<Rightarrow> (jsstring \<times> jsstring) option" where
  "signed_decimal s =
     (let sign = (case s of [] \<Rightarrow> [] | x # r \<Rightarrow> if x = 45 then [x] else []);
          s0 = drop (length sign) s
      in do {
        (ip, s1) \<leftarrow> digits1 s0;
        s2 \<leftarrow> lit 46 s1;
        (fp, s3) \<leftarrow> digits1 s2;
        Some (sign @ ip @ [46] @ fp, s3)
      })"

record dms_match =
  latDeg :: jsstring
  latMin :: jsstring
  latSec :: jsstring
  latDir :: nat
  lngDeg :: jsstring
  lngMin :: jsstring
  lngSec :: jsstring
  lngDir :: nat

text \<open>\<open>degreesPattern\<close>: degrees (U+00B0), minutes (U+2032), seconds (U+2033) and a
  direction letter, twice.\<close>

definition degreesPattern :: "jsstring \<Rightarrow> dms_match option" where
  "degreesPattern s = do {
     (d1, s1) \<leftarrow> digits1 s;
     s2 \<leftarrow> lit 176 s1;
     (m1, s3) \<leftarrow> digits1 s2;
     s4 \<leftarrow> lit 8242 s3;
     (c1, s5) \<leftarrow> digits1 s4;
     s6 \<leftarrow> lit 8243 s5;
     (ns, s7) \<leftarrow> one_of [78, 83] (spaces s6);
     (d2, s8) \<leftarrow> digits1 (spaces s7);
     s9 \<leftarrow> lit 176 s8;
     (m2, s10) \<leftarrow> digits1 s9;
     s11 \<leftarrow> lit 8242 s10;
     (c2, s12) \<leftarrow> digits1 s11;
     s13 \<leftarrow> lit 8243 s12;
     (ew, s14) \<leftarrow> one_of [69, 87] (spaces s13);
     Some \<lparr>latDeg = d1, latMin = m1, latSec = c1, latDir = ns,
           lngDeg = d2, lngMin = m2, lngSec = c2, lngDir = ew\<rparr>
   }"

text \<open>\<open>googlePattern\<close>: an at sign, a decimal, a comma, a decimal.\<close>

definition googlePattern :: "jsstring \<Rightarrow> (jsstring \<times> jsstring) option" where
  "googlePattern s = do {
     s1 \<leftarrow> lit 64 s;
     (a, s2) \<leftarrow> signed_decimal s1;
     s3 \<leftarrow> lit 44 s2;
     (b, s4) \<leftarrow> signed_decimal s3;
     Some (a, b)
   }"

text \<open>\<open>commaPattern\<close>: two decimals separated by a comma and optional white space.\<close>

definition commaPattern :: "jsstring \<Rightarrow> (jsstring \<times> jsstring) option" where
  "commaPattern s = do {
     (a, s1) \<leftarrow> signed_decimal s;
     s2 \<leftarrow> lit 44 (spaces s1);
     (b, s3) \<leftarrow> signed_decimal (spaces s2);
     Some (a, b)
   }"

fun regex_search :: "(jsstring \<Rightarrow> 'a option) \<Rightarrow> jsstring \<Rightarrow> 'a option" where
  "regex_search p [] = p []"
| "regex_search p (c # cs) =
     (case p (c # cs) of Some m \<Rightarrow> Some m | None \<Rightarrow> regex_search p cs)"

subsection \<open>\<open>parseDegreesFormat\<close>\<close>

record coords =
  lat :: json
  lng :: json

text \<open>The degrees branch: decimal degrees from the captures, negated for S and W.\<close>

definition from_dms :: "dms_match \<Rightarrow> coords" where
  "from_dms m =
     (let la = parseInt (latDeg m) + parseInt (latMin m) / 60 + parseInt (latSec m) / 3600;
          lo = parseInt (lngDeg m) + parseInt (lngMin m) / 60 + parseInt (lngSec m) / 3600;
          la' = (if latDir m = 83 then - la else la);
          lo' = (if lngDir m = 87 then - lo else lo)
      in \<lparr>lat = JNum la', lng = JNum lo'\<rparr>)"

text \<open>
  The \<open>try\<close> block. \<open>JSON.parse\<close> is the engine's, taken as a parameter
  (\<open>None\<close> when it throws a SyntaxError). A thrown error is caught and the block
  yields nothing; so does a falsy or absent \<open>latitude\<close> or \<open>longitude\<close>.
\<close>

definition json_coords :: "(jsstring \<Rightarrow> json option) \<Rightarrow> jsstring \<Rightarrow> coords option" where
  "json_coords JSON_parse s =
     (case JSON_parse s of
        None \<Rightarrow> None
      | Some jsonCoords \<Rightarrow>
          (case get_named jsonCoords (ascii ''latitude'') of
             Inl e \<Rightarrow> None
           | Inr None \<Rightarrow> None
           | Inr (Some la) \<Rightarrow>
               if \<not> truthy la then None
               else (case get_named jsonCoords (ascii ''longitude'') of
                       Inl e \<Rightarrow> None
                     | Inr None \<Rightarrow> None
                     | Inr (Some lo) \<Rightarrow>
                         if truthy lo then Some \<lparr>lat = la, lng = lo\<rparr> else None)))"

definition parseDegreesFormat ::
  "(jsstring \<Rightarrow> json option) \<Rightarrow> jsstring \<Rightarrow> coords option" where
  "parseDegreesFormat JSON_parse input =
     (case regex_search degreesPattern (trim input) of
        Some m \<Rightarrow> Some (from_dms m)
      | None \<Rightarrow>
          (case json_coords JSON_parse (trim input) of
             Some c \<Rightarrow> Some c
           | None \<Rightarrow>
               (case regex_search googlePattern (trim input) of
                  Some (a, b) \<Rightarrow> Some \<lparr>lat = JNum (parseFloat a), lng = JNum (parseFloat b)\<rparr>
                | None \<Rightarrow>
                    (case regex_search commaPattern (trim input) of
                       Some (a, b) \<Rightarrow>
                         Some \<lparr>lat = JNum (parseFloat a), lng = JNum (parseFloat b)\<rparr>
                     | None \<Rightarrow> None))))"

section \<open>The web-edit page: saving and uploading features\<close>

subsection \<open>Configuration, features and requests\<close>

text \<open>\<open>EDIT_CONFIG\<close>, as far as the two handlers read it.\<close>

record control =
  c_name :: jsstring
  c_type :: jsstring

record edit_config =
  layerName :: jsstring
  action :: jsstring
  swalename :: jsstring
  controls :: "control list"

text \<open>
  An element of \<open>td.getSnapshot()\<close>, as the drawing library types its store: an
  optional \<open>id\<close>, a geometry and a properties object; \<open>None\<close> stands for absent or
  \<open>null\<close> properties, the case the handler's \<open>if (!feature.properties)\<close> is for.
\<close>

record feature =
  f_id :: "json option"
  f_geometry :: json
  f_properties :: "(jsstring \<times> json) list option"

text \<open>The \<open>geojson\<close> object of the save handler; the template version has no \<open>action\<close>.\<close>

record feature_collection =
  fc_type :: jsstring
  fc_layer :: jsstring
  fc_action :: "jsstring option"
  fc_features :: "feature list"

text \<open>
  An \<open>XMLHttpRequest\<close> after \<open>open\<close>, \<open>setRequestHeader\<close> and \<open>send\<close>. The body
  is \<open>JSON.stringify({"data": v})\<close>; \<open>x_data\<close> is that \<open>v\<close> as a value.
  \<open>x_onreadystatechange\<close> says whether the handler that reports the outcome was
  assigned to this object.
\<close>

record 'b xhr =
  x_method :: jsstring
  x_url :: jsstring
  x_headers :: "(jsstring \<times> jsstring) list"
  x_data :: 'b
  x_onreadystatechange :: bool

datatype notice = ErrorPopup jsstring | SuccessNotification jsstring | Alert jsstring

definition post :: "jsstring \<Rightarrow> 'b \<Rightarrow> 'b xhr" where
  "post url v =
     \<lparr>x_method = ascii ''POST'', x_url = url,
      x_headers = [(ascii ''Content-Type'', ascii ''application/json'')],
      x_data = v, x_onreadystatechange = False\<rparr>"

subsection \<open>Applying the control values\<close>

text \<open>The decimal name of an index, for \<open>for ... in\<close> over an array or a string.\<close>

fun decimal :: "nat \<Rightarrow> jsstring" where
  "decimal n = (if n < 10 then [48 + n] else decimal (n div 10) @ [48 + n mod 10])"

declare decimal.simps [simp del]

text \<open>
  The keys \<open>for (const key in values)\<close> visits, each with \<open>values[key]\<close>: the members
  of an object, the indices of an array or of a string, nothing for any other value.
  (An engine visits the integer-like names of an object first; the members land in the
  same properties under the same names either way.)
\<close>

fun for_in_entries :: "json \<Rightarrow> (jsstring \<times> json) list" where
  "for_in_entries (JObj ms) = ms"
| "for_in_entries (JArr xs) = zip (map decimal [0..<length xs]) xs"
| "for_in_entries (JStr s) = zip (map decimal [0..<length s]) (map (\<lambda>c. JStr [c]) s)"
| "for_in_entries JNull = []"
| "for_in_entries (JBool b) = []"
| "for_in_entries (JNum x) = []"

text \<open>
  One control on one feature's properties. \<open>doc\<close> is
  \<open>document.getElementById(name).value\<close>, \<open>None\<close> where the page has no such
  element (reading \<open>.value\<close> of \<open>null\<close> throws). Assigning \<open>properties[key]\<close>
  replaces the member in place or appends it.
\<close>

definition apply_control ::
  "(jsstring \<Rightarrow> jsstring option) \<Rightarrow> (jsstring \<Rightarrow> json option) \<Rightarrow> control
     \<Rightarrow> (jsstring \<times> json) list \<Rightarrow> js_error + (jsstring \<times> json) list" where
  "apply_control doc JSON_parse c props =
     (case doc (c_name c) of
        None \<Rightarrow> Inl TypeError
      | Some v \<Rightarrow>
          if c_type c = ascii ''radio'' then
            (case JSON_parse v of
               None \<Rightarrow> Inl SyntaxError
             | Some values \<Rightarrow>
                 Inr (fold (\<lambda>(key, x). AList.update key x) (for_in_entries values) props))
          else Inr (AList.update (c_name c) (JStr v) props))"

fun apply_controls ::
  "(jsstring \<Rightarrow> jsstring option) \<Rightarrow> (jsstring \<Rightarrow> json option) \<Rightarrow> control list
     \<Rightarrow> (jsstring \<times> json) list \<Rightarrow> js_error + (jsstring \<times> json) list" where
  "apply_controls doc JSON_parse [] props = Inr props"
| "apply_controls doc JSON_parse (c # cs) props =
     (case apply_control doc JSON_parse c props of
        Inl e \<Rightarrow> Inl e
      | Inr props' \<Rightarrow> apply_controls doc JSON_parse cs props')"

definition apply_to_feature ::
  "edit_config \<Rightarrow> (jsstring \<Rightarrow> jsstring option) \<Rightarrow> (jsstring \<Rightarrow> json option) \<Rightarrow> feature
     \<Rightarrow> js_error + feature" where
  "apply_to_feature cfg doc JSON_parse f =
     (let props = (case f_properties f of None \<Rightarrow> [] | Some ms \<Rightarrow> ms)
      in case apply_controls doc JSON_parse (controls cfg) props of
           Inl e \<Rightarrow> Inl e
         | Inr props' \<Rightarrow> Inr (f\<lparr>f_properties := Some props'\<rparr>))"

text \<open>\<open>features.forEach\<close>: the first exception leaves the handler.\<close>

fun apply_to_features ::
  "edit_config \<Rightarrow> (jsstring \<Rightarrow> jsstring option) \<Rightarrow> (jsstring \<Rightarrow> json option) \<Rightarrow> feature list
     \<Rightarrow> js_error + feature list" where
  "apply_to_features cfg doc JSON_parse [] = Inr []"
| "apply_to_features cfg doc JSON_parse (f # fs) =
     (case apply_to_feature cfg doc JSON_parse f of
        Inl e \<Rightarrow> Inl e
      | Inr f' \<Rightarrow>
          (case apply_to_features cfg doc JSON_parse fs of
             Inl e \<Rightarrow> Inl e
           | Inr fs' \<Rightarrow> Inr (f' # fs')))"

subsection \<open>The save handler\<close>

text \<open>
  The loop \<open>for (let i = 0; i < features.length; i++)\<close>: every round creates a
  request, opens it and sends the same \<open>geojson_data\<close>.
\<close>

function send_loop :: "nat \<Rightarrow> nat \<Rightarrow> 'b xhr \<Rightarrow> 'b xhr list \<Rightarrow> 'b xhr list" where
  "send_loop i n req sent = (if i < n then send_loop (i + 1) n req (sent @ [req]) else sent)"
  by pat_completeness auto
termination
  by (relation "measure (\<lambda>(i, n, req, sent). n - i)") auto

declare send_loop.simps [simp del]

text \<open>
  After the loop \<open>xmlhttp\<close> is the request created last (\<open>var\<close> scopes it to the
  function), and the handler is assigned to it alone. With no round run \<open>xmlhttp\<close> is
  \<open>undefined\<close> and the assignment throws.
\<close>

definition attach_last :: "'b xhr list \<Rightarrow> js_error + 'b xhr list" where
  "attach_last sent =
     (if sent = [] then Inl TypeError
      else Inr (butlast sent @ [(last sent)\<lparr>x_onreadystatechange := True\<rparr>]))"

definition delta_upload_url :: "edit_config \<Rightarrow> jsstring" where
  "delta_upload_url cfg = ascii ''https://internal.fireatlas.org:9998/delta_upload/'' @ swalename cfg"

definition store_url :: "edit_config \<Rightarrow> jsstring" where
  "store_url cfg = ascii ''https://internal.fireatlas.org:9998/store/'' @ swalename cfg"

definition upload_store_url :: "edit_config \<Rightarrow> jsstring" where
  "upload_store_url cfg = ascii ''http://fireatlas.org:9998/store/'' @ swalename cfg"

text \<open>The handler of the web-edit script: the requests sent and the notices shown.\<close>

definition save_click ::
  "edit_config \<Rightarrow> (jsstring \<Rightarrow> jsstring option) \<Rightarrow> (jsstring \<Rightarrow> json option) \<Rightarrow> feature list
     \<Rightarrow> js_error + feature_collection xhr list \<times> notice list" where
  "save_click cfg doc JSON_parse features =
     (if length features = 0 then
        Inr ([], [ErrorPopup (ascii ''No features to save. Please draw some features first.'')])
      else
        (case apply_to_features cfg doc JSON_parse features of
           Inl e \<Rightarrow> Inl e
         | Inr features' \<Rightarrow>
             (let geojson = \<lparr>fc_type = ascii ''FeatureCollection'', fc_layer = layerName cfg,
                             fc_action = Some (action cfg), fc_features = features'\<rparr>;
                  sent = send_loop 0 (length features') (post (delta_upload_url cfg) geojson) []
              in case attach_last sent of
                   Inl e \<Rightarrow> Inl e
                 | Inr sent' \<Rightarrow> Inr (sent', []))))"

text \<open>
  The handler of \<open>templates/js/edit_map.js\<close>: no check for an empty snapshot, no
  \<open>action\<close>, the \<open>store\<close> endpoint. Its \<open>alert\<close> calls carry no data and are left
  out.
\<close>

definition save_click_template ::
  "edit_config \<Rightarrow> (jsstring \<Rightarrow> jsstring option) \<Rightarrow> (jsstring \<Rightarrow> json option) \<Rightarrow> feature list
     \<Rightarrow> js_error + feature_collection xhr list \<times> notice list" where
  "save_click_template cfg doc JSON_parse features =
     (case apply_to_features cfg doc JSON_parse features of
        Inl e \<Rightarrow> Inl e
      | Inr features' \<Rightarrow>
          (let geojson = \<lparr>fc_type = ascii ''FeatureCollection'', fc_layer = layerName cfg,
                          fc_action = None, fc_features = features'\<rparr>;
               sent = send_loop 0 (length features') (post (store_url cfg) geojson) []
           in case attach_last sent of
                Inl e \<Rightarrow> Inl e
              | Inr sent' \<Rightarrow> Inr (sent', [])))"




subsection \<open>The upload handler\<close>

text \<open>
  \<open>v.k = x\<close> in a script that is not in strict mode, as \<open>JSON.stringify\<close> then sees
  \<open>v\<close>: \<open>null\<close> throws; an object gets the member, in place or appended; an array
  gets a named property that \<open>JSON.stringify\<close> does not write; on a boolean, a number
  or a string the assignment is dropped.
\<close>

fun assign_member :: "json \<Rightarrow> jsstring \<Rightarrow> json \<Rightarrow> js_error + json" where
  "assign_member JNull k x = Inl TypeError"
| "assign_member (JObj ms) k x = Inr (JObj (AList.update k x ms))"
| "assign_member (JArr xs) k x = Inr (JArr xs)"
| "assign_member (JBool b) k x = Inr (JBool b)"
| "assign_member (JNum n) k x = Inr (JNum n)"
| "assign_member (JStr s) k x = Inr (JStr s)"

text \<open>
  \<open>reader.onload\<close> of the web-edit script on the content of the chosen file. Any
  exception inside the \<open>try\<close> ends in the popup \<open>Error reading file: \<close> followed by the
  engine's message.
\<close>

definition upload_onload ::
  "edit_config \<Rightarrow> (jsstring \<Rightarrow> json option) \<Rightarrow> jsstring \<Rightarrow> json xhr list \<times> notice list" where
  "upload_onload cfg JSON_parse content =
     (case JSON_parse content of
        None \<Rightarrow> ([], [ErrorPopup (ascii ''Error reading file: '')])
      | Some geojson \<Rightarrow>
          (case assign_member geojson (ascii ''layer'') (JStr (layerName cfg)) of
             Inl e \<Rightarrow> ([], [ErrorPopup (ascii ''Error reading file: '')])
           | Inr g1 \<Rightarrow>
               (case assign_member g1 (ascii ''action'') (JStr (action cfg)) of
                  Inl e \<Rightarrow> ([], [ErrorPopup (ascii ''Error reading file: '')])
                | Inr g2 \<Rightarrow>
                    ([(post (delta_upload_url cfg) g2)\<lparr>x_onreadystatechange := True\<rparr>], []))))"

text \<open>The same in \<open>templates/js/edit_map.js\<close>: only \<open>layer\<close> is set.\<close>

definition upload_onload_template ::
  "edit_config \<Rightarrow> (jsstring \<Rightarrow> json option) \<Rightarrow> jsstring \<Rightarrow> json xhr list \<times> notice list" where
  "upload_onload_template cfg JSON_parse content =
     (case JSON_parse content of
        None \<Rightarrow> ([], [Alert (ascii ''Error reading file: '')])
      | Some geojson \<Rightarrow>
          (case assign_member geojson (ascii ''layer'') (JStr (layerName cfg)) of
             Inl e \<Rightarrow> ([], [Alert (ascii ''Error reading file: '')])
           | Inr g1 \<Rightarrow> ([(post (upload_store_url cfg) g1)\<lparr>x_onreadystatechange := True\<rparr>], [])))"

text \<open>\<open>fileInput.onchange\<close>: nothing happens without a file.\<close>

definition upload_change ::
  "edit_config \<Rightarrow> (jsstring \<Rightarrow> json option) \<Rightarrow> jsstring option \<Rightarrow> json xhr list \<times> notice list" where
  "upload_change cfg JSON_parse file =
     (case file of None \<Rightarrow> ([], []) | Some content \<Rightarrow> upload_onload cfg JSON_parse content)"

definition upload_change_template ::
  "edit_config \<Rightarrow> (jsstring \<Rightarrow> json option) \<Rightarrow> jsstring option \<Rightarrow> json xhr list \<times> notice list" where
  "upload_change_template cfg JSON_parse file =
     (case file of None \<Rightarrow> ([], []) | Some content \<Rightarrow> upload_onload_template cfg JSON_parse content)"

subsection \<open>Reading a batch\<close>

text \<open>An own member of a JSON object; no other value has one.\<close>

fun json_member :: "json \<Rightarrow> jsstring \<Rightarrow> json option" where
  "json_member (JObj ms) k = map_of ms k"
| "json_member JNull k = None"
| "json_member (JBool b) k = None"
| "json_member (JNum x) k = None"
| "json_member (JStr s) k = None"
| "json_member (JArr xs) k = None"

text \<open>The \<open>id\<close> members of the features of an uploaded collection, and the ids of a
  saved one.\<close>

definition feature_ids :: "json \<Rightarrow> json list" where
  "feature_ids g =
     (case json_member g (ascii ''features'') of
        Some (JArr fs) \<Rightarrow> List.map_filter (\<lambda>f. json_member f (ascii ''id'')) fs
      | _ \<Rightarrow> [])"

definition saved_ids :: "feature_collection \<Rightarrow> json list" where
  "saved_ids g = List.map_filter f_id (fc_features g)"

section \<open>The delta engine\<close>

text \<open>
  The engine that applies deltas to layers (Layer Store, Feature Identity Assigner,
  Delta Queue, Annotation Resolver) is Python code of the repository; the sources at
  hand hold the browser scripts and the documents only. Every definition of this
  section is therefore written from sections 3 and 4 of the specification, and says so.
\<close>

subsection \<open>Data model\<close>

text \<open>Modelled from the spec: the geometry kinds of section 3 (the layer store's code
  is missing); a layer is single-typed.\<close>

datatype geometry_kind = Point | Line | Polygon

text \<open>Modelled from the spec: the error taxonomy of section 7, without the publish
  failure (the engine's code is missing).\<close>

datatype engine_error = ValidationError | SchemaViolation | MissingIdentityField | JoinAmbiguous

text \<open>
  Modelled from the spec: what the missing engine needs of a geometry library. The
  specification names a geometry kind per record, a bounding-box prefilter, an exact
  intersection test, normalized coordinates and a deterministic hash, and defines none
  of them; they are parameters.
\<close>

record ('g, 'c) geometry_ops =
  kind_of :: "'g \<Rightarrow> geometry_kind"
  bbox_overlaps :: "'g \<Rightarrow> 'g \<Rightarrow> bool"
  intersects :: "'g \<Rightarrow> 'g \<Rightarrow> bool"
  normalized_coordinates :: "'g \<Rightarrow> 'c"
  identity_hash :: "string \<Rightarrow> 'c \<Rightarrow> string"

text \<open>
  Modelled from the spec: the layer configuration of section 3 (its code is missing), as
  far as the engine reads it. \<open>join_expected_unique\<close> is the per-layer strictness of
  section 4.4 under which an ambiguous join is surfaced as \<open>JoinAmbiguous\<close>.
\<close>

record layer_config =
  layer_name :: string
  layer_kind :: geometry_kind
  identity_field :: "string option"
  join_expected_unique :: bool

text \<open>Modelled from the spec: a record of a layer instance, a geometry and a mapping
  of property name to value (section 3; the layer store's code is missing).\<close>

record 'g layer_record =
  geometry :: 'g
  properties :: "(string \<times> string) list"

text \<open>
  Modelled from the spec: a layer instance, a mapping from stable identity to record
  (section 3; the layer store's code is missing). It is kept as the list \<open>scan\<close>
  walks; the invariant that identities are unique is \<open>distinct (map fst L)\<close>.
\<close>

type_synonym 'g layer_instance = "(string \<times> 'g layer_record) list"

text \<open>Modelled from the spec: the invariant of a layer instance (section 3): unique
  identities, and every record of the configured geometry kind.\<close>

definition layer_ok :: "('g, 'c) geometry_ops \<Rightarrow> layer_config \<Rightarrow> 'g layer_instance \<Rightarrow> bool" where
  "layer_ok ops cfg L =
     (distinct (map fst L) \<and> list_all (\<lambda>(i, r). kind_of ops (geometry r) = layer_kind cfg) L)"

text \<open>Modelled from the spec: the three annotation types of section 3 (the resolver's
  code is missing).\<close>

datatype annotation_type = Annotate | Create | Delete

text \<open>
  Modelled from the spec: the join strategies of section 3 (the resolver's code is
  missing). \<open>PropertyMatch\<close> carries the configured match properties, each a name
  with the value a target must hold.
\<close>

datatype annotation_join = SimpleGeometryIntersection | PropertyMatch "(string \<times> string) list"

text \<open>
  Modelled from the spec: a delta-record (section 3; the queue's and the resolver's code
  is missing). The distinguished annotation fields are read out of the property mapping,
  \<open>None\<close> where the mapping does not specify one; \<open>d_properties\<close> are the remaining
  properties. \<open>replacement_geometry\<close> is the replacement geometry field of section
  4.4, distinct from the join geometry \<open>d_geometry\<close>; \<open>d_identity\<close> is an identity
  the record already carries.
\<close>

record 'g delta_record =
  d_geometry :: 'g
  d_properties :: "(string \<times> string) list"
  annotation_type :: "annotation_type option"
  annotation_join :: "annotation_join option"
  annotation_property_match :: "(string \<times> string) list option"
  annotation_timestamp :: int
  replacement_geometry :: "'g option"
  d_identity :: "string option"

text \<open>Modelled from the spec: \<open>Annotate\<close> is the default annotation type (section 3;
  the resolver's code is missing).\<close>

definition type_of :: "'g delta_record \<Rightarrow> annotation_type" where
  "type_of d = (case annotation_type d of None \<Rightarrow> Annotate | Some t \<Rightarrow> t)"

text \<open>Modelled from the spec: \<open>SimpleGeometryIntersection\<close> is the default join
  (section 3; the resolver's code is missing).\<close>

definition join_of :: "'g delta_record \<Rightarrow> annotation_join" where
  "join_of d = (case annotation_join d of None \<Rightarrow> SimpleGeometryIntersection | Some j \<Rightarrow> j)"

subsection \<open>Layer Store\<close>

text \<open>Modelled from the spec: \<open>get(identity) -> record | NotFound\<close> of section 4.1
  (the layer store's code is missing).\<close>

definition layer_get :: "'g layer_instance \<Rightarrow> string \<Rightarrow> 'g layer_record option" where
  "layer_get L i = map_of L i"

text \<open>Modelled from the spec: \<open>put(identity, record)\<close> of section 4.1, an upsert that
  fails with \<open>SchemaViolation\<close> on a geometry of another kind than the layer's (the
  layer store's code is missing).\<close>

definition layer_put ::
  "('g, 'c) geometry_ops \<Rightarrow> layer_config \<Rightarrow> string \<Rightarrow> 'g layer_record \<Rightarrow> 'g layer_instance
     \<Rightarrow> engine_error + 'g layer_instance" where
  "layer_put ops cfg i r L =
     (if kind_of ops (geometry r) \<noteq> layer_kind cfg then Inl SchemaViolation
      else Inr (AList.update i r L))"

text \<open>Modelled from the spec: \<open>delete(identity)\<close> of section 4.1, a silent no-op on
  an absent identity (the layer store's code is missing).\<close>

definition layer_delete :: "string \<Rightarrow> 'g layer_instance \<Rightarrow> 'g layer_instance" where
  "layer_delete i L = AList.delete i L"

text \<open>Modelled from the spec: \<open>scan(spatial_filter?)\<close> of section 4.1, the finite
  sequence of identities with their records, all of them or those that pass the filter
  (the layer store's code is missing).\<close>

definition layer_scan ::
  "('g layer_record \<Rightarrow> bool) option \<Rightarrow> 'g layer_instance \<Rightarrow> (string \<times> 'g layer_record) list" where
  "layer_scan spatial_filter L =
     (case spatial_filter of None \<Rightarrow> L | Some keep \<Rightarrow> filter (\<lambda>(i, r). keep r) L)"

subsection \<open>Feature Identity Assigner\<close>

text \<open>
  Modelled from the spec: \<open>assign(layer_config, record) -> identity\<close> of section 4.2
  (the assigner's code is missing): the configured identity field where the layer names
  one, failing with \<open>MissingIdentityField\<close> if the record lacks it, and otherwise the
  hash over layer name and normalized geometry coordinates.
\<close>

definition assign ::
  "('g, 'c) geometry_ops \<Rightarrow> layer_config \<Rightarrow> 'g layer_record \<Rightarrow> engine_error + string" where
  "assign ops cfg r =
     (case identity_field cfg of
        Some f \<Rightarrow>
          (case map_of (properties r) f of
             None \<Rightarrow> Inl MissingIdentityField
           | Some v \<Rightarrow> Inr v)
      | None \<Rightarrow> Inr (identity_hash ops (layer_name cfg) (normalized_coordinates ops (geometry r))))"

subsection \<open>Annotation Resolver\<close>

text \<open>Modelled from the spec: property equality of section 4.4, every wanted name
  holding the wanted value (the resolver's code is missing).\<close>

definition property_equal :: "(string \<times> string) list \<Rightarrow> (string \<times> string) list \<Rightarrow> bool" where
  "property_equal wanted props = list_all (\<lambda>(k, v). map_of props k = Some v) wanted"

text \<open>
  Modelled from the spec: whether an existing record is a target of a delta-record, step
  2 of section 4.4 (the resolver's code is missing). A geometry join is the bounding-box
  prefilter and then the exact intersection test, narrowed by
  \<open>annotation_property_match\<close> when that is present; a property join is equality on
  the configured match properties.
\<close>

definition is_target :: "('g, 'c) geometry_ops \<Rightarrow> 'g delta_record \<Rightarrow> 'g layer_record \<Rightarrow> bool" where
  "is_target ops d r =
     (case join_of d of
        SimpleGeometryIntersection \<Rightarrow>
          bbox_overlaps ops (d_geometry d) (geometry r)
          \<and> intersects ops (d_geometry d) (geometry r)
          \<and> (case annotation_property_match d of
                None \<Rightarrow> True
              | Some wanted \<Rightarrow> property_equal wanted (properties r))
      | PropertyMatch wanted \<Rightarrow> property_equal wanted (properties r))"

text \<open>Modelled from the spec: the match set of step 2 of section 4.4, found by a scan
  of the layer (the resolver's code is missing).\<close>

definition match_set ::
  "('g, 'c) geometry_ops \<Rightarrow> 'g delta_record \<Rightarrow> 'g layer_instance
     \<Rightarrow> (string \<times> 'g layer_record) list" where
  "match_set ops d L = layer_scan (Some (is_target ops d)) L"

text \<open>
  Modelled from the spec: the merge of step 3 of section 4.4 (the resolver's code is
  missing). Delta values overwrite on key collision and keys absent from the delta are
  preserved; the geometry stays unless the delta supplies a replacement geometry.
\<close>

definition merge_into :: "'g delta_record \<Rightarrow> 'g layer_record \<Rightarrow> 'g layer_record" where
  "merge_into d r =
     \<lparr>geometry = (case replacement_geometry d of None \<Rightarrow> geometry r | Some g \<Rightarrow> g),
      properties = AList.merge (properties r) (d_properties d)\<rparr>"

text \<open>Modelled from the spec: what applying one delta-record reports (sections 4.4 and
  7; the resolver's code is missing): applied, a reported no-op on an empty match set,
  or a failure that is surfaced.\<close>

datatype outcome = Applied | NoMatch | Failed engine_error

text \<open>
  Modelled from the spec: step 4 of section 4.4, the mutations written back through
  \<open>put\<close> (the resolver's code is missing). Section 6 makes each record mutation
  visible on its own, not as one transaction across records, so a failing \<open>put\<close>
  leaves the earlier writes in place.
\<close>

fun write_back ::
  "('g, 'c) geometry_ops \<Rightarrow> layer_config \<Rightarrow> (string \<times> 'g layer_record) list
     \<Rightarrow> 'g layer_instance \<Rightarrow> 'g layer_instance \<times> outcome" where
  "write_back ops cfg [] L = (L, Applied)"
| "write_back ops cfg ((i, r) # ws) L =
     (case layer_put ops cfg i r L of
        Inl e \<Rightarrow> (L, Failed e)
      | Inr L' \<Rightarrow> write_back ops cfg ws L')"

text \<open>
  Modelled from the spec: the algorithm of section 4.4 for one delta-record (the
  resolver's code is missing). A \<open>Create\<close> assigns an identity if the record has none
  and puts, evaluating no join. Otherwise the join is evaluated and an empty match set
  is a no-op. \<open>Annotate\<close> merges into every match; the ambiguity the specification
  names is that of an \<open>Annotate\<close> with several matches (section 9), so on a layer
  configured for unique joins such a record is surfaced as \<open>JoinAmbiguous\<close> and left
  unapplied. \<open>Delete\<close> removes every match.
\<close>

definition apply_record ::
  "('g, 'c) geometry_ops \<Rightarrow> layer_config \<Rightarrow> 'g delta_record \<Rightarrow> 'g layer_instance
     \<Rightarrow> 'g layer_instance \<times> outcome" where
  "apply_record ops cfg d L =
     (case type_of d of
        Create \<Rightarrow>
          (let r = \<lparr>geometry = d_geometry d, properties = d_properties d\<rparr>
           in case (case d_identity d of Some i \<Rightarrow> Inr i | None \<Rightarrow> assign ops cfg r) of
                Inl e \<Rightarrow> (L, Failed e)
              | Inr i \<Rightarrow>
                  (case layer_put ops cfg i r L of
                     Inl e \<Rightarrow> (L, Failed e)
                   | Inr L' \<Rightarrow> (L', Applied)))
      | Annotate \<Rightarrow>
          (let ms = match_set ops d L
           in if ms = [] then (L, NoMatch)
              else if join_expected_unique cfg \<and> 1 < length ms then (L, Failed JoinAmbiguous)
              else write_back ops cfg (map (\<lambda>(i, r). (i, merge_into d r)) ms) L)
      | Delete \<Rightarrow>
          (let ms = match_set ops d L
           in if ms = [] then (L, NoMatch)
              else (fold (\<lambda>(i, r). layer_delete i) ms L, Applied)))"

text \<open>Modelled from the spec: a sequence of delta-records applied in order, each
  failure isolated to its record and reported while the rest proceeds (section 7; the
  resolver's code is missing).\<close>

fun apply_records ::
  "('g, 'c) geometry_ops \<Rightarrow> layer_config \<Rightarrow> 'g delta_record list \<Rightarrow> 'g layer_instance
     \<Rightarrow> 'g layer_instance \<times> outcome list" where
  "apply_records ops cfg [] L = (L, [])"
| "apply_records ops cfg (d # ds) L =
     (case apply_record ops cfg d L of
        (L', out) \<Rightarrow>
          (case apply_records ops cfg ds L' of
             (L'', outs) \<Rightarrow> (L'', out # outs)))"

subsection \<open>Delta Queue\<close>

text \<open>Modelled from the spec: a delta, a batch of records for exactly one layer
  (section 3; the queue's code is missing).\<close>

record 'g delta =
  target_layer :: string
  delta_records :: "'g delta_record list"

text \<open>Modelled from the spec: the queue state of one layer (section 3; the queue's
  code is missing): the deltas not yet applied, in arrival order, and the archive.\<close>

record 'g delta_queue =
  pending :: "'g delta list"
  archived :: "'g delta list"

text \<open>
  Modelled from the spec: \<open>enqueue(layer_name, delta)\<close> of section 4.3 (the queue's
  code is missing). A delta with a record of another geometry kind than the layer's, or
  one that fails the check of its \<open>annotation_schema\<close>, is rejected with
  \<open>ValidationError\<close>; the schema check itself is not specified and is a parameter.
\<close>

definition enqueue ::
  "('g, 'c) geometry_ops \<Rightarrow> ('g delta \<Rightarrow> bool) \<Rightarrow> layer_config \<Rightarrow> 'g delta \<Rightarrow> 'g delta_queue
     \<Rightarrow> engine_error + 'g delta_queue" where
  "enqueue ops schema_ok cfg dl q =
     (if \<not> list_all (\<lambda>d. kind_of ops (d_geometry d) = layer_kind cfg) (delta_records dl)
         \<or> \<not> schema_ok dl
      then Inl ValidationError
      else Inr (q\<lparr>pending := pending q @ [dl]\<rparr>))"

text \<open>Modelled from the spec: the records across all pending deltas of a layer, in
  arrival order (section 4.3; the queue's code is missing).\<close>

definition pending_records :: "'g delta_queue \<Rightarrow> 'g delta_record list" where
  "pending_records q = concat (map delta_records (pending q))"

text \<open>
  Modelled from the spec: \<open>drain(layer_name)\<close> of section 4.3 (the queue's code is
  missing): the pending records sorted by \<open>annotation_timestamp\<close> ascending, ties in
  arrival order. \<open>sort_key\<close> is the library's insertion sort, which is stable.
\<close>

definition drain :: "'g delta_queue \<Rightarrow> 'g delta_record list" where
  "drain q = sort_key annotation_timestamp (pending_records q)"

text \<open>
  Modelled from the spec: the resolver consuming the drained sequence (sections 4.3 and
  4.4; the queue's code is missing). Each drained record passes the queue's
  \<open>transform\<close> hook as it is drained and is applied to the staging instance, in the
  order of the drain. Marking the applied records as archived is left out.
\<close>

definition apply_drained ::
  "('g, 'c) geometry_ops \<Rightarrow> layer_config \<Rightarrow> ('g delta_record \<Rightarrow> 'g delta_record)
     \<Rightarrow> 'g delta_queue \<Rightarrow> 'g layer_instance \<Rightarrow> 'g layer_instance \<times> outcome list" where
  "apply_drained ops cfg transform q L = apply_records ops cfg (map transform (drain q)) L"

section \<open>Sample inputs\<close>

text \<open>Concrete pages, files and location strings on which the properties below are
  evaluated. Each parser maps a sample text to the value \<open>JSON.parse\<close> yields on it.\<close>

definition zero_input :: jsstring where
  \<open>zero_input = ascii ''{"latitude": 0, "longitude": -122.4194}''\<close>

definition nonzero_input :: jsstring where
  \<open>nonzero_input = ascii ''{"latitude": 37.7749, "longitude": -122.4194}''\<close>

definition dms_text :: jsstring where
  "dms_text = ascii ''40'' @ [176] @ ascii ''14'' @ [8242] @ ascii ''18'' @ [8243]
     @ ascii '' N 123'' @ [176] @ ascii ''57'' @ [8242] @ ascii ''39'' @ [8243] @ ascii '' W''"

definition shadowed_input :: jsstring where
  \<open>shadowed_input =
     ascii ''{"latitude": 1, "longitude": 2, "note": "'' @ dms_text @ ascii ''"}''\<close>

definition location_JSON_parse :: "jsstring \<Rightarrow> json option" where
  "location_JSON_parse s =
     (if s = zero_input then
        Some (JObj [(ascii ''latitude'', JNum 0), (ascii ''longitude'', JNum (-122.4194))])
      else if s = nonzero_input then
        Some (JObj [(ascii ''latitude'', JNum 37.7749), (ascii ''longitude'', JNum (-122.4194))])
      else if s = shadowed_input then
        Some (JObj [(ascii ''latitude'', JNum 1), (ascii ''longitude'', JNum 2),
                    (ascii ''note'', JStr dms_text)])
      else None)"

definition sample_config :: edit_config where
  "sample_config =
     \<lparr>layerName = ascii ''roads'', action = ascii ''create'', swalename = ascii ''demo'',
      controls = [\<lparr>c_name = ascii ''name'', c_type = ascii ''string''\<rparr>,
                  \<lparr>c_name = ascii ''surface'', c_type = ascii ''radio''\<rparr>]\<rparr>"

definition sample_doc :: "jsstring \<Rightarrow> jsstring option" where
  \<open>sample_doc k =
     (if k = ascii ''name'' then Some (ascii ''Main St'')
      else if k = ascii ''surface'' then Some (ascii ''{"surface": "paved"}'')
      else None)\<close>


definition roads_file :: jsstring where
  \<open>roads_file = ascii (''{"type": "FeatureCollection", "layer": "creeks", "features": ''
     @ ''[{"type": "Feature", "id": "R1", "geometry": {"type": "Point", "coordinates": [1, 2]}, ''
     @ ''"properties": {"name": "Main St"}}]}'')\<close>

definition roads_feature :: json where
  "roads_feature =
     JObj [(ascii ''type'', JStr (ascii ''Feature'')), (ascii ''id'', JStr (ascii ''R1'')),
           (ascii ''geometry'',
              JObj [(ascii ''type'', JStr (ascii ''Point'')),
                    (ascii ''coordinates'', JArr [JNum 1, JNum 2])]),
           (ascii ''properties'', JObj [(ascii ''name'', JStr (ascii ''Main St''))])]"

definition roads_members :: "(jsstring \<times> json) list" where
  "roads_members =
     [(ascii ''type'', JStr (ascii ''FeatureCollection'')),
      (ascii ''layer'', JStr (ascii ''creeks'')),
      (ascii ''features'', JArr [roads_feature])]"

definition sample_JSON_parse :: "jsstring \<Rightarrow> json option" where
  \<open>sample_JSON_parse s =
     (if s = ascii ''{"surface": "paved"}'' then
        Some (JObj [(ascii ''surface'', JStr (ascii ''paved''))])
      else if s = roads_file then Some (JObj roads_members)
      else None)\<close>

definition point_feature :: "rat \<Rightarrow> rat \<Rightarrow> feature" where
  "point_feature x y =
     \<lparr>f_id = None,
      f_geometry = JObj [(ascii ''type'', JStr (ascii ''Point'')),
                         (ascii ''coordinates'', JArr [JNum x, JNum y])],
      f_properties = Some [(ascii ''mode'', JStr (ascii ''point''))]\<rparr>"

definition sample_props :: "(jsstring \<times> json) list" where
  "sample_props = [(ascii ''mode'', JStr (ascii ''point'')), (ascii ''name'', JStr (ascii ''Main St'')),
      (ascii ''surface'', JStr (ascii ''paved''))]"

text \<open>
  A layer of roads for the engine: a geometry is a kind with an extent on a line, two
  extents intersect when they overlap, and the hash writes the layer name and the extent.
\<close>

type_synonym extent = "geometry_kind \<times> nat \<times> nat"

definition extent_overlaps :: "extent \<Rightarrow> extent \<Rightarrow> bool" where
  "extent_overlaps a b = (fst (snd a) \<le> snd (snd b) \<and> fst (snd b) \<le> snd (snd a))"

definition extent_hash :: "string \<Rightarrow> nat \<times> nat \<Rightarrow> string" where
  "extent_hash name c =
     name @ ''#'' @ map char_of (decimal (fst c)) @ ''-'' @ map char_of (decimal (snd c))"

definition extent_ops :: "(extent, nat \<times> nat) geometry_ops" where
  "extent_ops =
     \<lparr>kind_of = fst, bbox_overlaps = extent_overlaps, intersects = extent_overlaps,
      normalized_coordinates = snd, identity_hash = extent_hash\<rparr>"

definition roads_config :: layer_config where
  "roads_config =
     \<lparr>layer_name = ''roads'', layer_kind = Line, identity_field = None,
      join_expected_unique = False\<rparr>"

definition roads_layer :: "extent layer_instance" where
  "roads_layer =
     [(''R1'', \<lparr>geometry = (Line, 0, 10), properties = [(''name'', ''Main St''), (''lanes'', ''2'')]\<rparr>),
      (''R2'', \<lparr>geometry = (Line, 20, 30), properties = [(''name'', ''Mill Rd'')]\<rparr>)]"

definition rename_main :: "extent delta_record" where
  "rename_main =
     \<lparr>d_geometry = (Line, 5, 6), d_properties = [(''name'', ''Main Street'')],
      annotation_type = None, annotation_join = None, annotation_property_match = None,
      annotation_timestamp = 1, replacement_geometry = None, d_identity = None\<rparr>"

definition delete_main :: "extent delta_record" where
  "delete_main =
     \<lparr>d_geometry = (Line, 5, 6), d_properties = [],
      annotation_type = Some Delete, annotation_join = None, annotation_property_match = None,
      annotation_timestamp = 2, replacement_geometry = None, d_identity = None\<rparr>"

definition rename_delta :: "extent delta" where
  "rename_delta = \<lparr>target_layer = ''roads'', delta_records = [rename_main]\<rparr>"

definition delete_delta :: "extent delta" where
  "delete_delta = \<lparr>target_layer = ''roads'', delta_records = [delete_main]\<rparr>"

definition queue_rename_first :: "extent delta_queue" where
  "queue_rename_first = \<lparr>pending = [rename_delta, delete_delta], archived = []\<rparr>"

definition queue_delete_first :: "extent delta_queue" where
  "queue_delete_first = \<lparr>pending = [delete_delta, rename_delta], archived = []\<rparr>"

section \<open>Properties of \<open>parseDegreesFormat\<close>\<close>

lemmas eval_defs = ascii_def trim_def is_space_def is_digit_def digits1_def spaces_def
  signed_decimal_def degreesPattern_def googlePattern_def commaPattern_def

lemma zero_input_no_pattern:
  "regex_search degreesPattern (trim zero_input) = None"
  "regex_search googlePattern (trim zero_input) = None"
  "regex_search commaPattern (trim zero_input) = None"
  by (simp_all add: zero_input_def eval_defs)

lemma nonzero_input_no_degrees:
  "regex_search degreesPattern (trim nonzero_input) = None"
  by (simp add: nonzero_input_def eval_defs)

lemma trim_samples:
  "trim zero_input = zero_input" "trim nonzero_input = nonzero_input"
  "trim shadowed_input = shadowed_input"
  by (simp_all add: zero_input_def nonzero_input_def shadowed_input_def dms_text_def
        ascii_def trim_def is_space_def)

lemma samples_distinct:
  "nonzero_input \<noteq> zero_input" "shadowed_input \<noteq> zero_input" "shadowed_input \<noteq> nonzero_input"
  by (simp_all add: zero_input_def nonzero_input_def shadowed_input_def dms_text_def ascii_def)

text \<open>
  Claim C10, as the code has it. On the text \<open>{"latitude": 0, "longitude": -122.4194}\<close>,
  which \<open>JSON.parse\<close> reads as an object whose latitude is the number 0,
  \<open>parseDegreesFormat\<close> returns \<open>null\<close>: the zero is falsy and no other format
  matches. On a text that \<open>JSON.parse\<close> reads as an object whose latitude and
  longitude are nonzero numbers it returns that pair, provided the degrees pattern,
  which is tried first and anywhere in the text, finds no match.
\<close>

theorem parseDegreesFormat_json_zero_rejected_nonzero_returned:
  "(JSON_parse (trim zero_input) = Some (JObj zs)
      \<and> map_of zs (ascii ''latitude'') = Some (JNum 0)
      \<longrightarrow> parseDegreesFormat JSON_parse zero_input = None)
   \<and> (regex_search degreesPattern (trim input) = None
      \<and> JSON_parse (trim input) = Some (JObj ms)
      \<and> map_of ms (ascii ''latitude'') = Some (JNum a) \<and> a \<noteq> 0
      \<and> map_of ms (ascii ''longitude'') = Some (JNum b) \<and> b \<noteq> 0
      \<longrightarrow> parseDegreesFormat JSON_parse input = Some \<lparr>lat = JNum a, lng = JNum b\<rparr>)"
proof (intro conjI impI)
  assume "JSON_parse (trim zero_input) = Some (JObj zs)
      \<and> map_of zs (ascii ''latitude'') = Some (JNum 0)"
  then show "parseDegreesFormat JSON_parse zero_input = None"
    by (simp add: parseDegreesFormat_def json_coords_def zero_input_no_pattern)
next
  assume "regex_search degreesPattern (trim input) = None
      \<and> JSON_parse (trim input) = Some (JObj ms)
      \<and> map_of ms (ascii ''latitude'') = Some (JNum a) \<and> a \<noteq> 0
      \<and> map_of ms (ascii ''longitude'') = Some (JNum b) \<and> b \<noteq> 0"
  then show "parseDegreesFormat JSON_parse input = Some \<lparr>lat = JNum a, lng = JNum b\<rparr>"
    by (simp add: parseDegreesFormat_def json_coords_def)
qed

text \<open>The theorem at the zero text and at the text of the help popup.\<close>

theorem parseDegreesFormat_json_witness:
  "parseDegreesFormat location_JSON_parse zero_input = None
   \<and> parseDegreesFormat location_JSON_parse nonzero_input =
       Some \<lparr>lat = JNum 37.7749, lng = JNum (-122.4194)\<rparr>"
proof -
  have p0: "location_JSON_parse (trim zero_input) =
      Some (JObj [(ascii ''latitude'', JNum 0), (ascii ''longitude'', JNum (-122.4194))])"
    by (simp add: trim_samples location_JSON_parse_def)
  have p1: "location_JSON_parse (trim nonzero_input) =
      Some (JObj [(ascii ''latitude'', JNum 37.7749), (ascii ''longitude'', JNum (-122.4194))])"
    by (simp add: trim_samples location_JSON_parse_def samples_distinct)
  have m0: "map_of [(ascii ''latitude'', JNum 0), (ascii ''longitude'', JNum (-122.4194))]
      (ascii ''latitude'') = Some (JNum 0)"
    by simp
  have m1: "map_of [(ascii ''latitude'', JNum 37.7749), (ascii ''longitude'', JNum (-122.4194))]
      (ascii ''latitude'') = Some (JNum 37.7749)"
    "map_of [(ascii ''latitude'', JNum 37.7749), (ascii ''longitude'', JNum (-122.4194))]
      (ascii ''longitude'') = Some (JNum (-122.4194))"
    by (simp_all add: ascii_def)
  have nz: "(37.7749 :: rat) \<noteq> 0" "(-122.4194 :: rat) \<noteq> 0" by simp_all
  note t = parseDegreesFormat_json_zero_rejected_nonzero_returned
    [where JSON_parse = location_JSON_parse and input = nonzero_input
       and zs = "[(ascii ''latitude'', JNum 0), (ascii ''longitude'', JNum (-122.4194))]"
       and ms = "[(ascii ''latitude'', JNum 37.7749), (ascii ''longitude'', JNum (-122.4194))]"
       and a = "37.7749" and b = "-122.4194"]
  have c0: "parseDegreesFormat location_JSON_parse zero_input = None"
    using t p0 m0 by blast
  have c1: "parseDegreesFormat location_JSON_parse nonzero_input =
       Some \<lparr>lat = JNum 37.7749, lng = JNum (-122.4194)\<rparr>"
    using t p1 m1 nz nonzero_input_no_degrees by blast
  show ?thesis using c0 c1 by (rule conjI)
qed

text \<open>
  Without the proviso the second half of C10 fails: a JSON object with latitude 1 and
  longitude 2 whose \<open>note\<close> member holds a location in degrees is read by the
  degrees branch, which returns about 40.238 and -123.961 and never parses the JSON.
\<close>

theorem parseDegreesFormat_json_shadowed_counterexample:
  "location_JSON_parse (trim shadowed_input) =
     Some (JObj [(ascii ''latitude'', JNum 1), (ascii ''longitude'', JNum 2),
                 (ascii ''note'', JStr dms_text)])
   \<and> parseDegreesFormat location_JSON_parse shadowed_input \<noteq>
       Some \<lparr>lat = JNum 1, lng = JNum 2\<rparr>"
proof -
  have "regex_search degreesPattern (trim shadowed_input) =
      Some \<lparr>latDeg = ascii ''40'', latMin = ascii ''14'', latSec = ascii ''18'', latDir = 78,
            lngDeg = ascii ''123'', lngMin = ascii ''57'', lngSec = ascii ''39'', lngDir = 87\<rparr>"
    by (simp add: shadowed_input_def dms_text_def eval_defs)
  then have "parseDegreesFormat location_JSON_parse shadowed_input =
      Some \<lparr>lat = JNum (24143 / 600), lng = JNum (- (148753 / 1200))\<rparr>"
    by (simp add: parseDegreesFormat_def from_dms_def parseInt_def ascii_def)
  then show ?thesis
    by (simp add: trim_samples location_JSON_parse_def samples_distinct)
qed

section \<open>Properties of the save handler\<close>

lemma send_loop_replicate: "send_loop i n req sent = sent @ replicate (n - i) req"
proof (induction i n req sent rule: send_loop.induct)
  case (1 i n req sent)
  show ?case
  proof (cases "i < n")
    case True
    then have "n - i = Suc (n - (i + 1))" by simp
    with True 1 show ?thesis
      by (subst send_loop.simps) (simp add: replicate_app_Cons_same)
  next
    case False
    then show ?thesis by (subst send_loop.simps) simp
  qed
qed

lemma attach_last_replicate:
  "0 < n \<Longrightarrow> attach_last (replicate n req) =
     Inr (replicate (n - 1) req @ [req\<lparr>x_onreadystatechange := True\<rparr>])"
proof -
  assume "0 < n"
  then obtain m where n: "n = Suc m" by (cases n) auto
  have r: "replicate (Suc m) req = replicate m req @ [req]"
    by (simp add: replicate_append_same)
  show ?thesis
    unfolding n attach_last_def r by simp
qed

lemma apply_to_features_shape:
  "apply_to_features cfg doc JSON_parse fs = Inr fs' \<Longrightarrow>
     length fs' = length fs \<and> map f_id fs' = map f_id fs
     \<and> map f_geometry fs' = map f_geometry fs"
proof (induction fs arbitrary: fs')
  case Nil
  then show ?case by simp
next
  case (Cons f fs)
  then show ?case
    by (auto simp: apply_to_feature_def Let_def split: sum.splits)
qed

lemma save_click_closed_form:
  assumes "features \<noteq> []"
    and "apply_to_features cfg doc JSON_parse features = Inr features'"
  shows "save_click cfg doc JSON_parse features =
     Inr (replicate (length features - 1)
            (post (delta_upload_url cfg)
               \<lparr>fc_type = ascii ''FeatureCollection'', fc_layer = layerName cfg,
                fc_action = Some (action cfg), fc_features = features'\<rparr>)
          @ [(post (delta_upload_url cfg)
               \<lparr>fc_type = ascii ''FeatureCollection'', fc_layer = layerName cfg,
                fc_action = Some (action cfg), fc_features = features'\<rparr>)
              \<lparr>x_onreadystatechange := True\<rparr>], [])"
proof -
  have n: "length features' = length features" "0 < length features"
    using assms apply_to_features_shape by auto
  show ?thesis
    using assms n
    by (simp add: save_click_def Let_def send_loop_replicate attach_last_replicate)
qed

lemma save_click_template_closed_form:
  assumes "features \<noteq> []"
    and "apply_to_features cfg doc JSON_parse features = Inr features'"
  shows "save_click_template cfg doc JSON_parse features =
     Inr (replicate (length features - 1)
            (post (store_url cfg)
               \<lparr>fc_type = ascii ''FeatureCollection'', fc_layer = layerName cfg,
                fc_action = None, fc_features = features'\<rparr>)
          @ [(post (store_url cfg)
               \<lparr>fc_type = ascii ''FeatureCollection'', fc_layer = layerName cfg,
                fc_action = None, fc_features = features'\<rparr>)
              \<lparr>x_onreadystatechange := True\<rparr>], [])"
proof -
  have n: "length features' = length features" "0 < length features"
    using assms apply_to_features_shape by auto
  show ?thesis
    using assms n
    by (simp add: save_click_template_def Let_def send_loop_replicate attach_last_replicate)
qed


lemma sample_apply:
  "apply_to_features sample_config sample_doc sample_JSON_parse
     [point_feature 1 2, point_feature 3 4] =
   Inr [(point_feature 1 2)\<lparr>f_properties := Some sample_props\<rparr>,
        (point_feature 3 4)\<lparr>f_properties := Some sample_props\<rparr>]"
  by (simp add: sample_config_def sample_doc_def sample_JSON_parse_def point_feature_def
      apply_to_feature_def apply_control_def ascii_def sample_props_def)




section \<open>Properties of the batches of the web-edit page\<close>

lemma map_filter_same_images:
  "map f xs = map f ys \<Longrightarrow> List.map_filter f xs = List.map_filter f ys"
proof -
  have via: "List.map_filter f zs = List.map_filter id (map f zs)" for zs
    by (induction zs) (simp_all add: List.map_filter_simps split: option.splits)
  assume "map f xs = map f ys"
  then show ?thesis
    by (simp add: via [of xs] via [of ys])
qed

text \<open>
  Claim C8, as the code has it. Every request of a save names the configured layer and
  carries the drawn features with their ids and geometries as they were; only the
  properties take the control values. An uploaded file that is a JSON object is sent
  once with its \<open>layer\<close> member set to the configured name, whatever it held; the
  web-edit script also sets \<open>action\<close>; every other member, the features and their
  ids among them, is forwarded as it is. The handlers add no identity and resolve no
  join, and they remove none either.
\<close>

theorem web_edit_batches_name_configured_layer:
  "(features \<noteq> [] \<and> apply_to_features cfg doc JSON_parse features = Inr features' \<longrightarrow>
      (\<exists>sent sent_t.
          save_click cfg doc JSON_parse features = Inr (sent, [])
        \<and> save_click_template cfg doc JSON_parse features = Inr (sent_t, [])
        \<and> (\<forall>x \<in> set sent \<union> set sent_t.
              fc_layer (x_data x) = layerName cfg
            \<and> map f_id (fc_features (x_data x)) = map f_id features
            \<and> saved_ids (x_data x) = List.map_filter f_id features
            \<and> map f_geometry (fc_features (x_data x)) = map f_geometry features)))
   \<and> (JSON_parse content = Some (JObj ms) \<longrightarrow>
      (\<exists>x x_t.
          upload_change cfg JSON_parse (Some content) = ([x], [])
        \<and> upload_change_template cfg JSON_parse (Some content) = ([x_t], [])
        \<and> json_member (x_data x) (ascii ''layer'') = Some (JStr (layerName cfg))
        \<and> json_member (x_data x_t) (ascii ''layer'') = Some (JStr (layerName cfg))
        \<and> (\<forall>k. k \<noteq> ascii ''layer'' \<and> k \<noteq> ascii ''action'' \<longrightarrow>
              json_member (x_data x) k = map_of ms k)
        \<and> (\<forall>k. k \<noteq> ascii ''layer'' \<longrightarrow> json_member (x_data x_t) k = map_of ms k)
        \<and> feature_ids (x_data x) = feature_ids (JObj ms)
        \<and> feature_ids (x_data x_t) = feature_ids (JObj ms)))"
proof (intro conjI impI)
  assume a: "features \<noteq> [] \<and> apply_to_features cfg doc JSON_parse features = Inr features'"
  then have ne: "features \<noteq> []"
    and ap: "apply_to_features cfg doc JSON_parse features = Inr features'"
    by simp_all
  note sh = apply_to_features_shape [OF ap]
  show "\<exists>sent sent_t.
          save_click cfg doc JSON_parse features = Inr (sent, [])
        \<and> save_click_template cfg doc JSON_parse features = Inr (sent_t, [])
        \<and> (\<forall>x \<in> set sent \<union> set sent_t.
              fc_layer (x_data x) = layerName cfg
            \<and> map f_id (fc_features (x_data x)) = map f_id features
            \<and> saved_ids (x_data x) = List.map_filter f_id features
            \<and> map f_geometry (fc_features (x_data x)) = map f_geometry features)"
    unfolding save_click_closed_form [OF ne ap] save_click_template_closed_form [OF ne ap]
    using sh map_filter_same_images [of f_id features' features]
    by (auto simp: post_def saved_ids_def)
next
  assume p: "JSON_parse content = Some (JObj ms)"
  have l: "ascii ''layer'' \<noteq> ascii ''action''" "ascii ''features'' \<noteq> ascii ''action''"
    "ascii ''features'' \<noteq> ascii ''layer''"
    by (simp_all add: ascii_def)
  show "\<exists>x x_t.
          upload_change cfg JSON_parse (Some content) = ([x], [])
        \<and> upload_change_template cfg JSON_parse (Some content) = ([x_t], [])
        \<and> json_member (x_data x) (ascii ''layer'') = Some (JStr (layerName cfg))
        \<and> json_member (x_data x_t) (ascii ''layer'') = Some (JStr (layerName cfg))
        \<and> (\<forall>k. k \<noteq> ascii ''layer'' \<and> k \<noteq> ascii ''action'' \<longrightarrow>
              json_member (x_data x) k = map_of ms k)
        \<and> (\<forall>k. k \<noteq> ascii ''layer'' \<longrightarrow> json_member (x_data x_t) k = map_of ms k)
        \<and> feature_ids (x_data x) = feature_ids (JObj ms)
        \<and> feature_ids (x_data x_t) = feature_ids (JObj ms)"
    using p l
    by (simp add: upload_change_def upload_change_template_def upload_onload_def
        upload_onload_template_def post_def feature_ids_def AList.update_conv')
qed

lemma roads_parse: "sample_JSON_parse roads_file = Some (JObj roads_members)"
  by (simp add: sample_JSON_parse_def roads_file_def ascii_def)

text \<open>
  C8 as stated fails on an upload: a file naming layer \<open>creeks\<close> whose one feature
  has the id \<open>R1\<close> is sent with layer \<open>roads\<close> and with that id still in it.
\<close>

theorem web_edit_upload_forwards_ids_counterexample:
  "sample_JSON_parse roads_file = Some (JObj roads_members)
   \<and> feature_ids (JObj roads_members) = [JStr (ascii ''R1'')]
   \<and> map x_data (fst (upload_change sample_config sample_JSON_parse (Some roads_file))) =
       [JObj [(ascii ''type'', JStr (ascii ''FeatureCollection'')),
              (ascii ''layer'', JStr (ascii ''roads'')),
              (ascii ''features'', JArr [roads_feature]),
              (ascii ''action'', JStr (ascii ''create''))]]
   \<and> map (feature_ids \<circ> x_data) (fst (upload_change sample_config sample_JSON_parse (Some roads_file))) =
       [[JStr (ascii ''R1'')]]"
  by (simp add: roads_parse upload_change_def upload_onload_def post_def sample_config_def
      roads_members_def roads_feature_def feature_ids_def List.map_filter_def ascii_def)

text \<open>The theorem on the two drawn points and on the uploaded roads file.\<close>

theorem web_edit_batches_name_configured_layer_witness:
  "(\<exists>sent. save_click sample_config sample_doc sample_JSON_parse
              [point_feature 1 2, point_feature 3 4] = Inr (sent, [])
          \<and> list_all (\<lambda>x. fc_layer (x_data x) = ascii ''roads''
                 \<and> map f_id (fc_features (x_data x)) = [None, None]) sent)
   \<and> (\<exists>x. upload_change sample_config sample_JSON_parse (Some roads_file) = ([x], [])
          \<and> json_member (x_data x) (ascii ''layer'') = Some (JStr (ascii ''roads''))
          \<and> json_member (x_data x) (ascii ''features'') = Some (JArr [roads_feature]))"
proof -
  note t = web_edit_batches_name_configured_layer
    [where cfg = sample_config and doc = sample_doc and JSON_parse = sample_JSON_parse
       and features = "[point_feature 1 2, point_feature 3 4]"
       and features' = "[(point_feature 1 2)\<lparr>f_properties := Some sample_props\<rparr>,
                         (point_feature 3 4)\<lparr>f_properties := Some sample_props\<rparr>]"
       and content = roads_file and ms = roads_members]
  have ne: "[point_feature 1 2, point_feature 3 4] \<noteq> []" by simp
  from t ne sample_apply obtain sent where s:
    "save_click sample_config sample_doc sample_JSON_parse
       [point_feature 1 2, point_feature 3 4] = Inr (sent, [])"
    "\<forall>x \<in> set sent. fc_layer (x_data x) = layerName sample_config
        \<and> map f_id (fc_features (x_data x)) = map f_id [point_feature 1 2, point_feature 3 4]"
    by auto
  have a: "\<exists>sent. save_click sample_config sample_doc sample_JSON_parse
              [point_feature 1 2, point_feature 3 4] = Inr (sent, [])
          \<and> list_all (\<lambda>x. fc_layer (x_data x) = ascii ''roads''
                 \<and> map f_id (fc_features (x_data x)) = [None, None]) sent"
    using s by (auto simp: list_all_iff sample_config_def point_feature_def)
  from t roads_parse obtain x where x:
    "upload_change sample_config sample_JSON_parse (Some roads_file) = ([x], [])"
    "json_member (x_data x) (ascii ''layer'') = Some (JStr (layerName sample_config))"
    "\<forall>k. k \<noteq> ascii ''layer'' \<and> k \<noteq> ascii ''action'' \<longrightarrow>
              json_member (x_data x) k = map_of roads_members k"
    by auto
  have "json_member (x_data x) (ascii ''features'') = Some (JArr [roads_feature])"
    using x(3) by (simp add: roads_members_def ascii_def)
  with x(1,2) have b: "\<exists>x. upload_change sample_config sample_JSON_parse (Some roads_file) = ([x], [])
          \<and> json_member (x_data x) (ascii ''layer'') = Some (JStr (ascii ''roads''))
          \<and> json_member (x_data x) (ascii ''features'') = Some (JArr [roads_feature])"
    by (auto simp: sample_config_def)
  from a b show ?thesis by (rule conjI)
qed


section \<open>Properties of the delta engine\<close>

subsection \<open>Deletion\<close>

lemma fold_layer_delete:
  "fold (\<lambda>(i, r). layer_delete i) ms L = filter (\<lambda>(k, r). k \<notin> fst ` set ms) L"
proof (induction ms arbitrary: L)
  case Nil
  then show ?case by simp
next
  case (Cons m ms)
  obtain i r where m: "m = (i, r)" by (cases m)
  have "filter (\<lambda>(k, r). k \<notin> fst ` set ms) (AList.delete i L) =
        filter (\<lambda>(k, r). k \<notin> fst ` set (m # ms)) L"
    unfolding m AList.delete_eq by (induction L) auto
  then show ?case
    using Cons.IH [of "layer_delete i L"] by (simp add: m layer_delete_def)
qed

lemma match_set_filter: "match_set ops d L = filter (\<lambda>(i, r). is_target ops d r) L"
  by (simp add: match_set_def layer_scan_def)

lemma match_set_after_delete:
  "match_set ops d (fold (\<lambda>(i, r). layer_delete i) (match_set ops d L) L) = []"
  unfolding fold_layer_delete match_set_filter
  by (auto simp: filter_empty_conv image_iff)

lemma layer_delete_absent: "layer_get L i = None \<Longrightarrow> layer_delete i L = L"
  by (simp add: layer_get_def layer_delete_def map_of_eq_None_iff)

lemma apply_delete_cases:
  assumes "type_of d = Delete"
  shows "apply_record ops cfg d L =
     (if match_set ops d L = [] then (L, NoMatch)
      else (fold (\<lambda>(i, r). layer_delete i) (match_set ops d L) L, Applied))"
  using assms by (simp add: apply_record_def Let_def)

text \<open>
  Claim C3. Deleting an absent identity leaves the layer as it is. A \<open>Delete\<close>
  delta-record with an empty match set is a no-op that does not fail. After a
  \<open>Delete\<close> delta-record has been applied once, no record of the layer matches it any
  more, and applying it again changes nothing and reports the empty match set: the
  layer after two applications is the layer after one.
\<close>

theorem delete_is_idempotent:
  "(layer_get L i = None \<longrightarrow> layer_delete i L = L)
   \<and> (type_of d = Delete \<and> match_set ops d L = [] \<longrightarrow> apply_record ops cfg d L = (L, NoMatch))
   \<and> (type_of d = Delete \<longrightarrow>
        match_set ops d (fst (apply_record ops cfg d L)) = []
        \<and> apply_record ops cfg d (fst (apply_record ops cfg d L))
            = (fst (apply_record ops cfg d L), NoMatch)
        \<and> fst (apply_record ops cfg d (fst (apply_record ops cfg d L)))
            = fst (apply_record ops cfg d L))"
proof (intro conjI impI)
  assume "layer_get L i = None"
  then show "layer_delete i L = L" by (rule layer_delete_absent)
next
  assume "type_of d = Delete \<and> match_set ops d L = []"
  then show "apply_record ops cfg d L = (L, NoMatch)"
    by (simp add: apply_delete_cases)
next
  assume t: "type_of d = Delete"
  show none: "match_set ops d (fst (apply_record ops cfg d L)) = []"
    by (simp add: apply_delete_cases [OF t] match_set_after_delete)
  then show again: "apply_record ops cfg d (fst (apply_record ops cfg d L))
            = (fst (apply_record ops cfg d L), NoMatch)"
    by (simp add: apply_delete_cases [OF t])
  then show "fst (apply_record ops cfg d (fst (apply_record ops cfg d L)))
            = fst (apply_record ops cfg d L)"
    by simp
qed

lemma delete_main_once:
  "apply_record extent_ops roads_config delete_main roads_layer =
     ([(''R2'', \<lparr>geometry = (Line, 20, 30), properties = [(''name'', ''Mill Rd'')]\<rparr>)], Applied)"
  by (simp add: apply_record_def type_of_def delete_main_def match_set_filter is_target_def
      join_of_def roads_layer_def extent_ops_def extent_overlaps_def roads_config_def
      layer_delete_def)

text \<open>
  The theorem on the roads layer: the identity \<open>R9\<close> is absent, and the delete
  record removes \<open>R1\<close> the first time and nothing the second time.
\<close>

theorem delete_is_idempotent_witness:
  "layer_get roads_layer ''R9'' = None
   \<and> layer_delete ''R9'' roads_layer = roads_layer
   \<and> type_of delete_main = Delete
   \<and> apply_record extent_ops roads_config delete_main roads_layer =
       ([(''R2'', \<lparr>geometry = (Line, 20, 30), properties = [(''name'', ''Mill Rd'')]\<rparr>)], Applied)
   \<and> match_set extent_ops delete_main
        [(''R2'', \<lparr>geometry = (Line, 20, 30), properties = [(''name'', ''Mill Rd'')]\<rparr>)] = []
   \<and> apply_record extent_ops roads_config delete_main
        [(''R2'', \<lparr>geometry = (Line, 20, 30), properties = [(''name'', ''Mill Rd'')]\<rparr>)] =
       ([(''R2'', \<lparr>geometry = (Line, 20, 30), properties = [(''name'', ''Mill Rd'')]\<rparr>)], NoMatch)"
proof -
  have g: "layer_get roads_layer ''R9'' = None"
    by (simp add: layer_get_def roads_layer_def)
  have t: "type_of delete_main = Delete"
    by (simp add: type_of_def delete_main_def)
  note inst = delete_is_idempotent
    [of roads_layer "''R9''" delete_main extent_ops roads_config]
  from inst g have a: "layer_delete ''R9'' roads_layer = roads_layer"
    by blast
  from inst t have
    "match_set extent_ops delete_main
       (fst (apply_record extent_ops roads_config delete_main roads_layer)) = []
     \<and> apply_record extent_ops roads_config delete_main
         (fst (apply_record extent_ops roads_config delete_main roads_layer))
        = (fst (apply_record extent_ops roads_config delete_main roads_layer), NoMatch)"
    by blast
  then have b: "match_set extent_ops delete_main
        [(''R2'', \<lparr>geometry = (Line, 20, 30), properties = [(''name'', ''Mill Rd'')]\<rparr>)] = []
   \<and> apply_record extent_ops roads_config delete_main
        [(''R2'', \<lparr>geometry = (Line, 20, 30), properties = [(''name'', ''Mill Rd'')]\<rparr>)] =
       ([(''R2'', \<lparr>geometry = (Line, 20, 30), properties = [(''name'', ''Mill Rd'')]\<rparr>)], NoMatch)"
    by (simp add: delete_main_once)
  from g a t delete_main_once b show ?thesis by simp
qed

subsection \<open>Draining the queue\<close>

lemma drain_same_records:
  assumes "mset (pending_records q') = mset (pending_records q)"
    and "distinct (map annotation_timestamp (pending_records q))"
  shows "drain q' = drain q"
proof -
  have s: "set (pending_records q') = set (pending_records q)"
    using assms(1) by (rule mset_eq_setD)
  have "inj_on annotation_timestamp (set (pending_records q'))"
    using assms(2) unfolding s by (simp add: distinct_map)
  moreover have "mset (pending_records q') = mset (drain q)"
    using assms(1) by (simp add: drain_def)
  moreover have "sorted (map annotation_timestamp (drain q))"
    by (simp add: drain_def)
  ultimately show ?thesis
    unfolding drain_def [of q'] by (intro sort_key_inj_key_eq)
qed

text \<open>
  Claim C6. \<open>drain\<close> returns the records of all pending deltas, each once, sorted by
  \<open>annotation_timestamp\<close> ascending; records with the same timestamp keep their
  arrival order; the result depends on the pending deltas only, so draining them again
  gives the same sequence. When the timestamps are pairwise distinct, the same records
  arrived in any other order drain to the same sequence and leave the same layer state
  and the same reports.
\<close>

theorem drain_is_stable_and_arrival_order_free:
  "sorted (map annotation_timestamp (drain q))
   \<and> mset (drain q) = mset (pending_records q)
   \<and> filter (\<lambda>d. annotation_timestamp d = t) (drain q)
       = filter (\<lambda>d. annotation_timestamp d = t) (pending_records q)
   \<and> (pending q' = pending q \<longrightarrow> drain q' = drain q)
   \<and> (mset (pending_records q') = mset (pending_records q)
        \<and> distinct (map annotation_timestamp (pending_records q))
      \<longrightarrow> drain q' = drain q
        \<and> apply_drained ops cfg transform q' L = apply_drained ops cfg transform q L)"
proof (intro conjI impI)
  show "sorted (map annotation_timestamp (drain q))"
    by (simp add: drain_def)
  show "mset (drain q) = mset (pending_records q)"
    by (simp add: drain_def)
  show "filter (\<lambda>d. annotation_timestamp d = t) (drain q)
       = filter (\<lambda>d. annotation_timestamp d = t) (pending_records q)"
    unfolding drain_def by (rule sort_key_stable)
  show "drain q' = drain q" if "pending q' = pending q"
    using that by (simp add: drain_def pending_records_def)
next
  assume a: "mset (pending_records q') = mset (pending_records q)
        \<and> distinct (map annotation_timestamp (pending_records q))"
  then show d: "drain q' = drain q"
    using drain_same_records by blast
  show "apply_drained ops cfg transform q' L = apply_drained ops cfg transform q L"
    by (simp add: apply_drained_def d)
qed

lemma sample_queue_records:
  "pending_records queue_rename_first = [rename_main, delete_main]"
  "pending_records queue_delete_first = [delete_main, rename_main]"
  by (simp_all add: pending_records_def queue_rename_first_def queue_delete_first_def
      rename_delta_def delete_delta_def)

text \<open>
  The theorem on a rename and a delete that arrive in either order.
\<close>

theorem drain_is_stable_and_arrival_order_free_witness:
  "mset (pending_records queue_delete_first) = mset (pending_records queue_rename_first)
   \<and> distinct (map annotation_timestamp (pending_records queue_rename_first))
   \<and> drain queue_delete_first = [rename_main, delete_main]
   \<and> drain queue_rename_first = [rename_main, delete_main]
   \<and> apply_drained extent_ops roads_config id queue_delete_first roads_layer
       = apply_drained extent_ops roads_config id queue_rename_first roads_layer
   \<and> apply_drained extent_ops roads_config id queue_rename_first roads_layer
       = ([(''R2'', \<lparr>geometry = (Line, 20, 30), properties = [(''name'', ''Mill Rd'')]\<rparr>)],
          [Applied, Applied])"
proof -
  have m: "mset (pending_records queue_delete_first) = mset (pending_records queue_rename_first)"
    by (simp add: sample_queue_records)
  have d: "distinct (map annotation_timestamp (pending_records queue_rename_first))"
    by (simp add: sample_queue_records rename_main_def delete_main_def)
  have r: "drain queue_rename_first = [rename_main, delete_main]"
    by (simp add: drain_def sample_queue_records rename_main_def delete_main_def)
  from drain_is_stable_and_arrival_order_free
    [of queue_rename_first _ queue_delete_first extent_ops roads_config id roads_layer] m d
  have "drain queue_delete_first = drain queue_rename_first"
    "apply_drained extent_ops roads_config id queue_delete_first roads_layer
       = apply_drained extent_ops roads_config id queue_rename_first roads_layer"
    by blast+
  moreover have "apply_drained extent_ops roads_config id queue_rename_first roads_layer
       = ([(''R2'', \<lparr>geometry = (Line, 20, 30), properties = [(''name'', ''Mill Rd'')]\<rparr>)],
          [Applied, Applied])"
    by (simp add: apply_drained_def r apply_record_def type_of_def rename_main_def
        delete_main_def match_set_filter is_target_def join_of_def roads_layer_def
        extent_ops_def extent_overlaps_def roads_config_def layer_put_def layer_delete_def
        merge_into_def)
  ultimately show ?thesis using m d r by simp
qed

subsection \<open>Annotation\<close>

lemma write_back_all_put:
  "list_all (\<lambda>(i, r). kind_of ops (geometry r) = layer_kind cfg) ws \<Longrightarrow>
     write_back ops cfg ws L = (fold (\<lambda>(i, r). AList.update i r) ws L, Applied)"
  by (induction ws arbitrary: L) (auto simp: layer_put_def)

lemma fold_update_keys:
  "fst ` set ws \<subseteq> fst ` set L \<Longrightarrow>
     map fst (fold (\<lambda>(i, r). AList.update i r) ws L) = map fst L"
proof (induction ws arbitrary: L)
  case Nil
  then show ?case by simp
next
  case (Cons w ws)
  obtain i r where w: "w = (i, r)" by (cases w)
  from Cons.prems have i: "i \<in> fst ` set L" and rest: "fst ` set ws \<subseteq> fst ` set L"
    by (auto simp: w)
  have k: "map fst (AList.update i r L) = map fst L"
    using i by (simp add: AList.update_keys)
  then have "fst ` set (AList.update i r L) = fst ` set L"
    by (metis list.set_map)
  with rest Cons.IH [of "AList.update i r L"] k show ?case
    by (simp add: w)
qed

lemma fold_update_map_of:
  "distinct (map fst ws) \<Longrightarrow>
     map_of (fold (\<lambda>(i, r). AList.update i r) ws L) k =
       (case map_of ws k of Some v \<Rightarrow> Some v | None \<Rightarrow> map_of L k)"
proof (induction ws arbitrary: L)
  case Nil
  then show ?case by simp
next
  case (Cons w ws)
  obtain i r where w: "w = (i, r)" by (cases w)
  from Cons.prems have d: "distinct (map fst ws)" and n: "i \<notin> fst ` set ws"
    by (auto simp: w)
  from n have none: "map_of ws i = None"
    by (simp add: map_of_eq_None_iff)
  show ?case
    using Cons.IH [OF d, of "AList.update i r L"] none
    by (auto simp: w AList.update_conv' split: option.splits)
qed

lemma merged_map_of:
  assumes "distinct (map fst ms)"
  shows "map_of (map (\<lambda>(i, r). (i, merge_into d r)) ms) k = map_option (merge_into d) (map_of ms k)"
  by (induction ms) auto

lemma merge_into_properties:
  "map_of (properties (merge_into d r)) k =
     (case map_of (d_properties d) k of Some v \<Rightarrow> Some v | None \<Rightarrow> map_of (properties r) k)"
  by (simp add: merge_into_def AList.merge_conv' map_add_def)

lemma merge_into_geometry:
  "geometry (merge_into d r) = (case replacement_geometry d of None \<Rightarrow> geometry r | Some g \<Rightarrow> g)"
  by (simp add: merge_into_def)

text \<open>
  For a layer that merges into every match (section 4.4, step 3): an \<open>Annotate\<close>
  record with at least one match keeps the identities of the layer, gives each match
  the merged properties and, without a replacement geometry, its old geometry, and
  leaves every other record alone.
\<close>

lemma annotate_merges_into_every_match:
  assumes "type_of d = Annotate"
    and "layer_ok ops cfg L"
    and "match_set ops d L \<noteq> []"
    and "join_expected_unique cfg \<Longrightarrow> length (match_set ops d L) = 1"
    and "\<And>g. replacement_geometry d = Some g \<Longrightarrow> kind_of ops g = layer_kind cfg"
  shows "\<exists>L'. apply_record ops cfg d L = (L', Applied)
      \<and> map fst L' = map fst L
      \<and> (\<forall>i r. (i, r) \<in> set (match_set ops d L) \<longrightarrow>
            (\<exists>r'. layer_get L' i = Some r'
               \<and> (\<forall>k. map_of (properties r') k =
                    (case map_of (d_properties d) k of
                       Some v \<Rightarrow> Some v
                     | None \<Rightarrow> map_of (properties r) k))
               \<and> geometry r' =
                    (case replacement_geometry d of None \<Rightarrow> geometry r | Some g \<Rightarrow> g)))
      \<and> (\<forall>i. i \<notin> fst ` set (match_set ops d L) \<longrightarrow> layer_get L' i = layer_get L i)"
proof -
  let ?ms = "match_set ops d L"
  let ?ws = "map (\<lambda>(i, r). (i, merge_into d r)) ?ms"
  let ?L' = "fold (\<lambda>(i, r). AList.update i r) ?ws L"
  have dL: "distinct (map fst L)"
    and kL: "list_all (\<lambda>(i, r). kind_of ops (geometry r) = layer_kind cfg) L"
    using assms(2) by (simp_all add: layer_ok_def)
  have sub: "set ?ms \<subseteq> set L"
    by (auto simp: match_set_filter)
  have dms: "distinct (map fst ?ms)"
    unfolding match_set_filter using dL by (rule distinct_map_filter)
  have keys: "map fst ?ws = map fst ?ms"
    by (simp add: case_prod_unfold comp_def)
  have kinds: "list_all (\<lambda>(i, r). kind_of ops (geometry r) = layer_kind cfg) ?ws"
  proof -
    have "kind_of ops (geometry (merge_into d r)) = layer_kind cfg" if "(i, r) \<in> set ?ms" for i r
    proof -
      from that sub have "(i, r) \<in> set L" by blast
      with kL have "kind_of ops (geometry r) = layer_kind cfg"
        by (auto simp: list_all_iff)
      with assms(5) show ?thesis
        by (simp add: merge_into_geometry split: option.splits)
    qed
    then show ?thesis by (auto simp: list_all_iff)
  qed
  have amb: "\<not> (join_expected_unique cfg \<and> 1 < length ?ms)"
    using assms(4) by auto
  have ap: "apply_record ops cfg d L = (?L', Applied)"
    using assms(1,3) amb by (simp add: apply_record_def Let_def write_back_all_put [OF kinds])
  have "fst ` set ?ws \<subseteq> fst ` set L"
    using sub keys by (metis image_mono list.set_map)
  then have same: "map fst ?L' = map fst L"
    by (rule fold_update_keys)
  have look: "map_of ?L' k =
      (case map_option (merge_into d) (map_of ?ms k) of Some v \<Rightarrow> Some v | None \<Rightarrow> map_of L k)" for k
  proof -
    have dws: "distinct (map fst ?ws)"
      by (simp only: keys dms)
    have "map_of ?L' k = (case map_of ?ws k of Some v \<Rightarrow> Some v | None \<Rightarrow> map_of L k)"
      by (rule fold_update_map_of [OF dws])
    then show ?thesis
      by (simp only: merged_map_of [OF dms])
  qed
  have hit: "\<exists>r'. layer_get ?L' i = Some r'
               \<and> (\<forall>k. map_of (properties r') k =
                    (case map_of (d_properties d) k of
                       Some v \<Rightarrow> Some v
                     | None \<Rightarrow> map_of (properties r) k))
               \<and> geometry r' =
                    (case replacement_geometry d of None \<Rightarrow> geometry r | Some g \<Rightarrow> g)"
    if "(i, r) \<in> set ?ms" for i r
  proof -
    from that dms have "map_of ?ms i = Some r" by simp
    then have "layer_get ?L' i = Some (merge_into d r)"
      by (simp add: layer_get_def look)
    then show ?thesis
      by (simp add: merge_into_properties merge_into_geometry)
  qed
  have miss: "layer_get ?L' i = layer_get L i" if "i \<notin> fst ` set ?ms" for i
  proof -
    from that have "map_of ?ms i = None" by (simp add: map_of_eq_None_iff)
    then show ?thesis by (simp add: layer_get_def look)
  qed
  from ap same hit miss show ?thesis by blast
qed

lemma annotate_merges_on_roads:
  "\<exists>L'. apply_record extent_ops roads_config rename_main roads_layer = (L', Applied)
      \<and> map fst L' = [''R1'', ''R2'']
      \<and> (\<exists>r'. layer_get L' ''R1'' = Some r'
            \<and> map_of (properties r') ''name'' = Some ''Main Street''
            \<and> map_of (properties r') ''lanes'' = Some ''2''
            \<and> geometry r' = (Line, 0, 10))
      \<and> layer_get L' ''R2'' = layer_get roads_layer ''R2''"
proof -
  have t: "type_of rename_main = Annotate"
    by (simp add: type_of_def rename_main_def)
  have ok: "layer_ok extent_ops roads_config roads_layer"
    by (simp add: layer_ok_def roads_layer_def extent_ops_def roads_config_def)
  have ms: "match_set extent_ops rename_main roads_layer =
     [(''R1'', \<lparr>geometry = (Line, 0, 10), properties = [(''name'', ''Main St''), (''lanes'', ''2'')]\<rparr>)]"
    by (simp add: match_set_filter is_target_def join_of_def rename_main_def roads_layer_def
      extent_ops_def extent_overlaps_def)
  have ne: "match_set extent_ops rename_main roads_layer \<noteq> []"
    by (simp add: ms)
  have u: "join_expected_unique roads_config \<Longrightarrow>
      length (match_set extent_ops rename_main roads_layer) = 1"
    by (simp add: ms)
  have g: "\<And>g. replacement_geometry rename_main = Some g \<Longrightarrow>
      kind_of extent_ops g = layer_kind roads_config"
    by (simp add: rename_main_def)
  from annotate_merges_into_every_match [OF t ok ne u g]
  obtain L' where L':
    "apply_record extent_ops roads_config rename_main roads_layer = (L', Applied)"
    "map fst L' = map fst roads_layer"
    "\<forall>i r. (i, r) \<in> set (match_set extent_ops rename_main roads_layer) \<longrightarrow>
            (\<exists>r'. layer_get L' i = Some r'
               \<and> (\<forall>k. map_of (properties r') k =
                    (case map_of (d_properties rename_main) k of
                       Some v \<Rightarrow> Some v
                     | None \<Rightarrow> map_of (properties r) k))
               \<and> geometry r' =
                    (case replacement_geometry rename_main of None \<Rightarrow> geometry r | Some g \<Rightarrow> g))"
    "\<forall>i. i \<notin> fst ` set (match_set extent_ops rename_main roads_layer) \<longrightarrow>
        layer_get L' i = layer_get roads_layer i"
    by blast
  let ?r1 = "\<lparr>geometry = (Line, 0, 10), properties = [(''name'', ''Main St''), (''lanes'', ''2'')]\<rparr>
    :: extent layer_record"
  have "(''R1'', ?r1) \<in> set (match_set extent_ops rename_main roads_layer)"
    by (simp add: ms)
  with L'(3) obtain r' where r':
    "layer_get L' ''R1'' = Some r'"
    "\<forall>k. map_of (properties r') k =
        (case map_of (d_properties rename_main) k of
           Some v \<Rightarrow> Some v
         | None \<Rightarrow> map_of (properties ?r1) k)"
    "geometry r' = (case replacement_geometry rename_main of None \<Rightarrow> geometry ?r1 | Some g \<Rightarrow> g)"
    by blast
  have p: "map_of (properties r') ''name'' = Some ''Main Street''"
    "map_of (properties r') ''lanes'' = Some ''2''"
    "geometry r' = (Line, 0, 10)"
    using r'(2,3) by (simp_all add: rename_main_def)
  have o: "layer_get L' ''R2'' = layer_get roads_layer ''R2''"
    using L'(4) by (simp add: ms)
  have k: "map fst L' = [''R1'', ''R2'']"
    using L'(2) by (simp add: roads_layer_def)
  have "\<exists>r'. layer_get L' ''R1'' = Some r'
            \<and> map_of (properties r') ''name'' = Some ''Main Street''
            \<and> map_of (properties r') ''lanes'' = Some ''2''
            \<and> geometry r' = (Line, 0, 10)"
    using r'(1) p by (intro exI [of _ r']) simp
  with L'(1) k o show ?thesis
    by (intro exI [of _ L']) simp
qed

end
